theory Spec2Isabelle
  imports Complex_Main
begin

section \<open>Data shared by the notebook's wrapper classes\<close>

text \<open>
  The notebook \<^verbatim>\<open>nichita-stability-cases-paper.ipynb\<close> declares two \<^verbatim>\<open>attr.s\<close>
  classes, \<^verbatim>\<open>NichitaPR\<close> and \<^verbatim>\<open>NichitaSRK\<close>, each with the attributes
  \<^verbatim>\<open>mixture: Mixture\<close> and \<^verbatim>\<open>bip: np.ndarray\<close>. Python attributes hold references:
  the \<^verbatim>\<open>Mixture\<close> object and the array are shared with every EOS instance built from
  them, so both live in an explicit store and the attributes are addresses into it.
  Python floats are read as reals; the wrappers do no arithmetic of their own. The
  arguments \<open>P\<close>, \<open>T\<close> and \<open>z\<close> are handed on as they come: no wrapper reads into them.
\<close>

type_synonym ref = nat

text \<open>
  \<^verbatim>\<open>Mixture(z, Tcs, Pcs, omegas)\<close>: the notebook builds it from four arrays and reads
  back only \<^verbatim>\<open>.z\<close>. The fields carry the prefix \<open>mix_\<close> because \<open>z\<close> is also the name
  of an argument of every method below.
\<close>

record Mixture =
  mix_z :: "real list"
  mix_Tcs :: "real list"
  mix_Pcs :: "real list"
  mix_omegas :: "real list"

text \<open>The store: what each address holds. Python has no dangling reference, so both maps are total.\<close>

record heap =
  mixtures :: "ref \<Rightarrow> Mixture"
  arrays :: "ref \<Rightarrow> real list list"

text \<open>
  An EOS instance as the notebook constructs it: the class called with the keyword
  arguments \<^verbatim>\<open>mixture=\<close> and \<^verbatim>\<open>bip=\<close>, in this order.
\<close>

datatype ceos =
  PengRobinson78 ref ref
| SoaveRedlichKwong ref ref

text \<open>
  The two methods of an EOS instance that the wrappers call. Their code
  (\<^verbatim>\<open>gibbs.models.ceos\<close>) is imported by the notebook, so the wrappers take them as
  parameters: a method receives the instance, its arguments and the store, and returns a
  value or the exception it raised (\<open>Inl\<close>), with the store as it left it. Below,
  \<open>calc_Z\<close> stands for \<^verbatim>\<open>calculate_Z_minimal_energy\<close> and \<open>calc_f\<close> for
  \<^verbatim>\<open>calculate_fugacity\<close>. The constructor is taken to store its two arguments.
\<close>

type_synonym 'e Z_method =
  "ceos \<Rightarrow> real \<Rightarrow> real \<Rightarrow> real list \<Rightarrow> heap \<Rightarrow> ('e + real) \<times> heap"

type_synonym 'e fugacity_method =
  "ceos \<Rightarrow> real \<Rightarrow> real \<Rightarrow> real list \<Rightarrow> real \<Rightarrow> heap \<Rightarrow> ('e + real list) \<times> heap"

record NichitaPR =
  mixture :: ref
  bip :: ref

record NichitaSRK =
  mixture :: ref
  bip :: ref

section \<open>NichitaPR\<close>

text \<open>
  Every method takes the wrapper and the store, and returns its result together with the
  wrapper and the store after the call.
  \<^verbatim>\<open>
    @property
    def model(self):
        return PengRobinson78(mixture=self.mixture, bip=self.bip)
  \<close>
\<close>

definition NichitaPR_model :: "NichitaPR \<Rightarrow> heap \<Rightarrow> ceos \<times> NichitaPR \<times> heap" where
  "NichitaPR_model self h =
     (PengRobinson78 (NichitaPR.mixture self) (NichitaPR.bip self), self, h)"

text \<open>
  \<^verbatim>\<open>
    @property
    def number_of_components(self):
        return len(self.mixture.z)
  \<close>
\<close>

definition NichitaPR_number_of_components :: "NichitaPR \<Rightarrow> heap \<Rightarrow> nat \<times> NichitaPR \<times> heap" where
  "NichitaPR_number_of_components self h =
     (length (mix_z (mixtures h (NichitaPR.mixture self))), self, h)"

text \<open>
  \<^verbatim>\<open>
    def calculate_Z(self, P, T, z):
        Z_factor = self.model.calculate_Z_minimal_energy(P, T, z)
        return Z_factor
  \<close>
\<close>

definition NichitaPR_calculate_Z ::
  "'e Z_method \<Rightarrow> NichitaPR \<Rightarrow> real \<Rightarrow> real \<Rightarrow> real list \<Rightarrow> heap
     \<Rightarrow> ('e + real) \<times> NichitaPR \<times> heap" where
  "NichitaPR_calculate_Z calc_Z self P T z h =
     (case NichitaPR_model self h of
        (model, self1, h1) \<Rightarrow>
          (case calc_Z model P T z h1 of
             (Z_factor, h2) \<Rightarrow> (Z_factor, self1, h2)))"

text \<open>
  \<^verbatim>\<open>
    def fugacity(self, P, T, z):
        Z_factor = self.calculate_Z(P, T, z)
        return self.model.calculate_fugacity(P, T, z, Z_factor)
  \<close>
  An exception of \<^verbatim>\<open>calculate_Z\<close> leaves \<^verbatim>\<open>fugacity\<close> at once: nothing catches it.
\<close>

definition NichitaPR_fugacity ::
  "'e Z_method \<Rightarrow> 'e fugacity_method \<Rightarrow> NichitaPR \<Rightarrow> real \<Rightarrow> real \<Rightarrow> real list \<Rightarrow> heap
     \<Rightarrow> ('e + real list) \<times> NichitaPR \<times> heap" where
  "NichitaPR_fugacity calc_Z calc_f self P T z h =
     (case NichitaPR_calculate_Z calc_Z self P T z h of
        (Inl e, self1, h1) \<Rightarrow> (Inl e, self1, h1)
      | (Inr Z_factor, self1, h1) \<Rightarrow>
          (case NichitaPR_model self1 h1 of
             (model, self2, h2) \<Rightarrow>
               (case calc_f model P T z Z_factor h2 of
                  (f, h3) \<Rightarrow> (f, self2, h3))))"

section \<open>NichitaSRK\<close>

text \<open>The same four members, with \<^verbatim>\<open>SoaveRedlichKwong\<close> as the class of the instance.\<close>

definition NichitaSRK_model :: "NichitaSRK \<Rightarrow> heap \<Rightarrow> ceos \<times> NichitaSRK \<times> heap" where
  "NichitaSRK_model self h =
     (SoaveRedlichKwong (NichitaSRK.mixture self) (NichitaSRK.bip self), self, h)"

definition NichitaSRK_number_of_components :: "NichitaSRK \<Rightarrow> heap \<Rightarrow> nat \<times> NichitaSRK \<times> heap" where
  "NichitaSRK_number_of_components self h =
     (length (mix_z (mixtures h (NichitaSRK.mixture self))), self, h)"

definition NichitaSRK_calculate_Z ::
  "'e Z_method \<Rightarrow> NichitaSRK \<Rightarrow> real \<Rightarrow> real \<Rightarrow> real list \<Rightarrow> heap
     \<Rightarrow> ('e + real) \<times> NichitaSRK \<times> heap" where
  "NichitaSRK_calculate_Z calc_Z self P T z h =
     (case NichitaSRK_model self h of
        (model, self1, h1) \<Rightarrow>
          (case calc_Z model P T z h1 of
             (Z_factor, h2) \<Rightarrow> (Z_factor, self1, h2)))"

definition NichitaSRK_fugacity ::
  "'e Z_method \<Rightarrow> 'e fugacity_method \<Rightarrow> NichitaSRK \<Rightarrow> real \<Rightarrow> real \<Rightarrow> real list \<Rightarrow> heap
     \<Rightarrow> ('e + real list) \<times> NichitaSRK \<times> heap" where
  "NichitaSRK_fugacity calc_Z calc_f self P T z h =
     (case NichitaSRK_calculate_Z calc_Z self P T z h of
        (Inl e, self1, h1) \<Rightarrow> (Inl e, self1, h1)
      | (Inr Z_factor, self1, h1) \<Rightarrow>
          (case NichitaSRK_model self1 h1 of
             (model, self2, h2) \<Rightarrow>
               (case calc_f model P T z Z_factor h2 of
                  (f, h3) \<Rightarrow> (f, self2, h3))))"

section \<open>The EOS layer, from the specification\<close>

text \<open>
  The notebook imports \<^verbatim>\<open>PengRobinson78\<close> and \<^verbatim>\<open>SoaveRedlichKwong\<close> from the
  package \<^verbatim>\<open>gibbs\<close>, whose modules are not among the sources. What follows is written
  from the specification's sections 3, 4.1 and 7.
\<close>

text \<open>
  Modelled from the spec: the error taxonomy of section 7, as far as it is raised
  (\<^verbatim>\<open>NonConvergenceWarning\<close> is reported, not raised).
\<close>

datatype error =
  InvalidCompositionError
| NoPhysicalRootError

text \<open>
  Modelled from the spec: the parts of a \<^verbatim>\<open>CubicEquationOfState\<close> that section 4.1
  names without giving their formulas, which differ between PR78 and SRK.
  \<open>dimensionless P T z\<close> is the pair \<open>(A, B)\<close> of section 3, obtained from the mixing rules;
  \<open>cubic_coefficients A B\<close> is \<open>(c2, c1, c0)\<close>; \<open>real_roots\<close> is the closed-form solver,
  returning the real roots it found; \<open>departure A B Z\<close> is the residual molar Gibbs energy
  of the root \<open>Z\<close>.
\<close>

record eos_config =
  dimensionless :: "real \<Rightarrow> real \<Rightarrow> real list \<Rightarrow> real \<times> real"
  cubic_coefficients :: "real \<Rightarrow> real \<Rightarrow> real \<times> real \<times> real"
  real_roots :: "real \<times> real \<times> real \<Rightarrow> real list"
  departure :: "real \<Rightarrow> real \<Rightarrow> real \<Rightarrow> real"

text \<open>
  Modelled from the spec: the polynomial \<^verbatim>\<open>Z^3 + c2 Z^2 + c1 Z + c0\<close> of section 4.1,
  whose real roots the solver is to find.
\<close>

definition cubic :: "real \<times> real \<times> real \<Rightarrow> real \<Rightarrow> real" where
  "cubic c Z = (case c of (c2, c1, c0) \<Rightarrow> Z ^ 3 + c2 * Z ^ 2 + c1 * Z + c0)"

text \<open>
  Modelled from the spec: "the root of minimum Gibbs energy is returned" (section 4.1).
  One pass over the admissible roots, keeping the first root of least energy.
\<close>

definition min_energy_root :: "(real \<Rightarrow> real) \<Rightarrow> real \<Rightarrow> real list \<Rightarrow> real" where
  "min_energy_root G Z Zs = fold (\<lambda>Z' best. if G Z' < G best then Z' else best) Zs Z"

text \<open>
  Modelled from the spec: \<^verbatim>\<open>calculate_Z_minimal_energy(P, T, z)\<close> of section 4.1.
  It computes the cubic's coefficients and its real roots. "When only one real root
  exists, it is returned directly", with no test. Among several roots, the admissible ones
  (\<open>Z > B\<close>) are compared by Gibbs energy, and when none of them is admissible the call
  fails with \<^verbatim>\<open>NoPhysicalRootError\<close> (section 4.1, failure modes, and section 7).
\<close>

definition calculate_Z_minimal_energy ::
  "eos_config \<Rightarrow> real \<Rightarrow> real \<Rightarrow> real list \<Rightarrow> error + real" where
  "calculate_Z_minimal_energy cfg P T z =
     (case dimensionless cfg P T z of
        (A, B) \<Rightarrow>
          (case real_roots cfg (cubic_coefficients cfg A B) of
             [Z] \<Rightarrow> Inr Z
           | roots \<Rightarrow>
               (case filter (\<lambda>Z. B < Z) roots of
                  [] \<Rightarrow> Inl NoPhysicalRootError
                | Z # Zs \<Rightarrow> Inr (min_energy_root (departure cfg A B) Z Zs))))"

section \<open>Concrete inputs\<close>

text \<open>
  A store holding the first mixture of the notebook's problem 1 (feed and interaction
  matrix; the critical constants come from a database and are left at round values).
\<close>

definition example_heap :: heap where
  "example_heap =
     \<lparr>mixtures = (\<lambda>r. \<lparr>mix_z = [1 / 2, 1 / 2], mix_Tcs = [190, 373],
                          mix_Pcs = [46, 90], mix_omegas = [0, 0]\<rparr>),
      arrays = (\<lambda>r. [[0, 2 / 25], [2 / 25, 0]])\<rparr>"

definition example_PR :: NichitaPR where
  "example_PR = \<lparr>NichitaPR.mixture = 0, NichitaPR.bip = 1\<rparr>"

definition example_SRK :: NichitaSRK where
  "example_SRK = \<lparr>NichitaSRK.mixture = 0, NichitaSRK.bip = 1\<rparr>"

text \<open>Two EOS methods that only read the store.\<close>

definition example_Z_method :: "error Z_method" where
  "example_Z_method model P T z h = (Inr (P / T), h)"

definition example_fugacity_method :: "error fugacity_method" where
  "example_fugacity_method model P T z Z h = (Inr (map (\<lambda>x. x * Z * P) z), h)"

text \<open>
  A configuration whose cubic is \<open>(Z - 1) (Z - 2) (Z - 3)\<close> at \<open>A = 11\<close>, with the bound
  \<open>B\<close> equal to the temperature argument, and an energy that is least at \<open>Z = 3\<close>.
\<close>

definition example_config :: eos_config where
  "example_config =
     \<lparr>dimensionless = (\<lambda>P T z. (11, T)),
      cubic_coefficients = (\<lambda>A B. (- 6, A, - 6)),
      real_roots = (\<lambda>c. [1, 2, 3]),
      departure = (\<lambda>A B Z. (Z - 3) ^ 2)\<rparr>"

section \<open>Unfolding the wrappers\<close>

lemma NichitaPR_calculate_Z_unfold:
  "NichitaPR_calculate_Z cz self P T z h =
     (case cz (PengRobinson78 (NichitaPR.mixture self) (NichitaPR.bip self)) P T z h of
        (r, h1) \<Rightarrow> (r, self, h1))"
  by (simp add: NichitaPR_calculate_Z_def NichitaPR_model_def)

lemma NichitaSRK_calculate_Z_unfold:
  "NichitaSRK_calculate_Z cz self P T z h =
     (case cz (SoaveRedlichKwong (NichitaSRK.mixture self) (NichitaSRK.bip self)) P T z h of
        (r, h1) \<Rightarrow> (r, self, h1))"
  by (simp add: NichitaSRK_calculate_Z_def NichitaSRK_model_def)

lemma NichitaPR_fugacity_unfold:
  "NichitaPR_fugacity cz cf self P T z h =
     (case cz (PengRobinson78 (NichitaPR.mixture self) (NichitaPR.bip self)) P T z h of
        (Inl e, h1) \<Rightarrow> (Inl e, self, h1)
      | (Inr Z, h1) \<Rightarrow>
          (case cf (PengRobinson78 (NichitaPR.mixture self) (NichitaPR.bip self)) P T z Z h1 of
             (f, h2) \<Rightarrow> (f, self, h2)))"
  by (simp add: NichitaPR_fugacity_def NichitaPR_calculate_Z_unfold NichitaPR_model_def
           split: prod.splits sum.splits)

lemma NichitaSRK_fugacity_unfold:
  "NichitaSRK_fugacity cz cf self P T z h =
     (case cz (SoaveRedlichKwong (NichitaSRK.mixture self) (NichitaSRK.bip self)) P T z h of
        (Inl e, h1) \<Rightarrow> (Inl e, self, h1)
      | (Inr Z, h1) \<Rightarrow>
          (case cf (SoaveRedlichKwong (NichitaSRK.mixture self) (NichitaSRK.bip self)) P T z Z h1 of
             (f, h2) \<Rightarrow> (f, self, h2)))"
  by (simp add: NichitaSRK_fugacity_def NichitaSRK_calculate_Z_unfold NichitaSRK_model_def
           split: prod.splits sum.splits)

section \<open>Selecting the root of least energy\<close>

lemma min_energy_root_mem: "min_energy_root G Z Zs \<in> set (Z # Zs)"
  unfolding min_energy_root_def
  by (induction Zs arbitrary: Z) (auto split: if_splits)

lemma fold_le_start: "(G :: real \<Rightarrow> real) (fold (\<lambda>Z' best. if G Z' < G best then Z' else best) Zs Z) \<le> G Z"
proof (induction Zs arbitrary: Z)
  case Nil
  show ?case by simp
next
  case (Cons a Zs)
  show ?case
  proof (cases "G a < G Z")
    case True
    have "G (fold (\<lambda>Z' best. if G Z' < G best then Z' else best) Zs a) \<le> G a"
      by (rule Cons.IH)
    with True show ?thesis by simp
  next
    case False
    with Cons.IH [of Z] show ?thesis by simp
  qed
qed

lemma min_energy_root_least:
  "Z' \<in> set (Z # Zs) \<Longrightarrow> G (min_energy_root G Z Zs) \<le> (G Z' :: real)"
  unfolding min_energy_root_def
proof (induction Zs arbitrary: Z)
  case Nil
  then show ?case by simp
next
  case (Cons a Zs)
  let ?f = "\<lambda>Z' best. if G Z' < G best then Z' else best"
  show ?case
  proof (cases "Z' \<in> set Zs")
    case True
    then have "Z' \<in> set (?f a Z # Zs)" by simp
    from Cons.IH [OF this] show ?thesis by simp
  next
    case False
    with Cons.prems have Z': "Z' = Z \<or> Z' = a" by auto
    have "G (fold ?f Zs (?f a Z)) \<le> G (?f a Z)" by (rule fold_le_start)
    moreover have "G (?f a Z) \<le> G Z'" using Z' by auto
    ultimately show ?thesis by simp
  qed
qed

lemma calculate_Z_minimal_energy_several:
  assumes "dimensionless cfg P T z = (A, B)"
    and "\<not> (\<exists>Z. real_roots cfg (cubic_coefficients cfg A B) = [Z])"
  shows "calculate_Z_minimal_energy cfg P T z =
     (case filter (\<lambda>Z. B < Z) (real_roots cfg (cubic_coefficients cfg A B)) of
        [] \<Rightarrow> Inl NoPhysicalRootError
      | Z # Zs \<Rightarrow> Inr (min_energy_root (departure cfg A B) Z Zs))"
proof (cases "real_roots cfg (cubic_coefficients cfg A B)")
  case Nil
  with assms(1) show ?thesis
    by (simp add: calculate_Z_minimal_energy_def)
next
  case (Cons Z1 rest)
  with assms(2) obtain Z2 rest' where "rest = Z2 # rest'"
    by (cases rest) auto
  with Cons assms(1) show ?thesis
    by (simp add: calculate_Z_minimal_energy_def)
qed

lemma calculate_Z_minimal_energy_admissible:
  assumes AB: "dimensionless cfg P T z = (A, B)"
    and adm: "filter (\<lambda>Z. B < Z) (real_roots cfg (cubic_coefficients cfg A B)) = Z0 # Zs"
  shows "calculate_Z_minimal_energy cfg P T z = Inr (min_energy_root (departure cfg A B) Z0 Zs)"
proof (cases "\<exists>Z. real_roots cfg (cubic_coefficients cfg A B) = [Z]")
  case True
  then obtain Z where one: "real_roots cfg (cubic_coefficients cfg A B) = [Z]"
    by blast
  with adm have "Z0 = Z" and "Zs = []"
    by (auto split: if_splits)
  then show ?thesis
    by (simp add: calculate_Z_minimal_energy_def AB one min_energy_root_def)
next
  case False
  then have "calculate_Z_minimal_energy cfg P T z =
      (case filter (\<lambda>Z. B < Z) (real_roots cfg (cubic_coefficients cfg A B)) of
         [] \<Rightarrow> Inl NoPhysicalRootError
       | Z # Zs \<Rightarrow> Inr (min_energy_root (departure cfg A B) Z Zs))"
    by (rule calculate_Z_minimal_energy_several [OF AB])
  then show ?thesis
    by (simp only: adm list.case)
qed

lemma cubic_example_factor: "cubic (- 6, 11, - 6) Z = (Z - 1) * (Z - 2) * (Z - 3)"
  by (simp add: cubic_def algebra_simps power3_eq_cube power2_eq_square)

lemma cubic_example_roots: "set [1, 2, 3] = {Z. cubic (- 6, 11, - 6) Z = 0}"
  by (auto simp: cubic_example_factor)

lemma example_config_dimensionless: "dimensionless example_config 4 (3 / 2) [1 / 2, 1 / 2] = (11, 3 / 2)"
  by (simp add: example_config_def)

lemma example_config_solver:
  "set (real_roots example_config (cubic_coefficients example_config 11 B)) =
     {Z. cubic (cubic_coefficients example_config 11 B) Z = 0}"
  using cubic_example_roots by (simp add: example_config_def)

section \<open>The compressibility factor returned by the EOS layer\<close>

text \<open>
  C6. For every valid \<open>(P, T, z)\<close>, \<^verbatim>\<open>calculate_Z_minimal_energy\<close> returns one
  compressibility factor \<open>Z\<close> with \<open>Z > B\<close>, and its residual Gibbs energy is at most that
  of every admissible root (every real root of the cubic above \<open>B\<close>), in particular when
  the cubic has three real roots. An input is valid when its cubic has an admissible root
  (section 4.1 calls the other inputs invalid); the solver is taken to return exactly the
  real roots of the cubic, as section 4.1 requires of it.
\<close>

theorem calculate_Z_minimal_energy_admissible_minimal:
  assumes AB: "dimensionless cfg P T z = (A, B)"
    and solver: "set (real_roots cfg (cubic_coefficients cfg A B)) =
                   {Z. cubic (cubic_coefficients cfg A B) Z = 0}"
    and valid: "\<exists>Z. cubic (cubic_coefficients cfg A B) Z = 0 \<and> B < Z"
  shows "\<exists>Z. calculate_Z_minimal_energy cfg P T z = Inr Z
             \<and> B < Z
             \<and> cubic (cubic_coefficients cfg A B) Z = 0
             \<and> (\<forall>Z'. cubic (cubic_coefficients cfg A B) Z' = 0 \<and> B < Z'
                    \<longrightarrow> departure cfg A B Z \<le> departure cfg A B Z')"
proof -
  let ?roots = "real_roots cfg (cubic_coefficients cfg A B)"
  let ?adm = "filter (\<lambda>Z. B < Z) ?roots"
  let ?G = "departure cfg A B"
  from valid solver have "?adm \<noteq> []"
    by (auto simp: filter_empty_conv)
  then obtain Z0 Zs where adm: "?adm = Z0 # Zs"
    by (cases ?adm) auto
  let ?Z = "min_energy_root ?G Z0 Zs"
  have res: "calculate_Z_minimal_energy cfg P T z = Inr ?Z"
    by (rule calculate_Z_minimal_energy_admissible [OF AB adm])
  have "?Z \<in> set ?adm"
    using min_energy_root_mem [of ?G Z0 Zs] by (simp only: adm)
  then have bound: "B < ?Z" and root: "?Z \<in> set ?roots"
    by auto
  from root solver have zero: "cubic (cubic_coefficients cfg A B) ?Z = 0"
    by auto
  have least: "?G ?Z \<le> ?G Z'" if "cubic (cubic_coefficients cfg A B) Z' = 0" "B < Z'" for Z'
  proof -
    from that solver have "Z' \<in> set ?adm" by auto
    then have "Z' \<in> set (Z0 # Zs)" by (simp only: adm)
    then show ?thesis by (rule min_energy_root_least)
  qed
  from res bound zero least show ?thesis by blast
qed

theorem calculate_Z_minimal_energy_admissible_minimal_witness:
  "dimensionless example_config 4 (3 / 2) [1 / 2, 1 / 2] = (11, 3 / 2)
   \<and> set (real_roots example_config (cubic_coefficients example_config 11 (3 / 2))) =
       {Z. cubic (cubic_coefficients example_config 11 (3 / 2)) Z = 0}
   \<and> (\<exists>Z. cubic (cubic_coefficients example_config 11 (3 / 2)) Z = 0 \<and> 3 / 2 < Z)
   \<and> calculate_Z_minimal_energy example_config 4 (3 / 2) [1 / 2, 1 / 2] = Inr 3
   \<and> (\<exists>Z. calculate_Z_minimal_energy example_config 4 (3 / 2) [1 / 2, 1 / 2] = Inr Z
          \<and> 3 / 2 < Z
          \<and> departure example_config 11 (3 / 2) Z \<le> departure example_config 11 (3 / 2) 2)"
proof -
  have h1: "dimensionless example_config 4 (3 / 2) [1 / 2, 1 / 2] = (11, 3 / 2)"
    by (rule example_config_dimensionless)
  have h2: "set (real_roots example_config (cubic_coefficients example_config 11 (3 / 2))) =
       {Z. cubic (cubic_coefficients example_config 11 (3 / 2)) Z = 0}"
    by (rule example_config_solver)
  have two: "cubic (cubic_coefficients example_config 11 (3 / 2)) 2 = 0"
    by (simp add: example_config_def cubic_def)
  then have h3: "\<exists>Z. cubic (cubic_coefficients example_config 11 (3 / 2)) Z = 0 \<and> 3 / 2 < Z"
    by (intro exI [of _ 2]) simp
  have run: "calculate_Z_minimal_energy example_config 4 (3 / 2) [1 / 2, 1 / 2] = Inr 3"
    by (simp add: calculate_Z_minimal_energy_def example_config_def min_energy_root_def)
  from calculate_Z_minimal_energy_admissible_minimal [OF h1 h2 h3]
  obtain Z where Z: "calculate_Z_minimal_energy example_config 4 (3 / 2) [1 / 2, 1 / 2] = Inr Z"
      "3 / 2 < Z"
      "\<forall>Z'. cubic (cubic_coefficients example_config 11 (3 / 2)) Z' = 0 \<and> 3 / 2 < Z'
          \<longrightarrow> departure example_config 11 (3 / 2) Z \<le> departure example_config 11 (3 / 2) Z'"
    by blast
  from Z(3) two have "departure example_config 11 (3 / 2) Z \<le> departure example_config 11 (3 / 2) 2"
    by simp
  with Z(1,2) have "\<exists>Z. calculate_Z_minimal_energy example_config 4 (3 / 2) [1 / 2, 1 / 2] = Inr Z
          \<and> 3 / 2 < Z
          \<and> departure example_config 11 (3 / 2) Z \<le> departure example_config 11 (3 / 2) 2"
    by blast
  with h1 h2 h3 run show ?thesis by blast
qed

section \<open>The wrappers resolve Z and feed it to the fugacity computation\<close>

text \<open>
  C9. For every \<open>(P, T, z)\<close>, \<^verbatim>\<open>NichitaPR.fugacity(P, T, z)\<close> is
  \<^verbatim>\<open>calculate_fugacity(P, T, z, Z)\<close> of the \<^verbatim>\<open>PengRobinson78\<close> instance built from
  the wrapper's \<^verbatim>\<open>mixture\<close> and \<^verbatim>\<open>bip\<close>, where \<open>Z\<close> is what
  \<^verbatim>\<open>calculate_Z_minimal_energy(P, T, z)\<close> of the same model returned just before, run in
  the store that call left; \<^verbatim>\<open>NichitaSRK.fugacity\<close> is the same with
  \<^verbatim>\<open>SoaveRedlichKwong\<close>. When the Z call raises, the fugacity computation is not run
  and the exception is the result. Here \<open>calc_Z\<close> and \<open>calc_f\<close> are any two methods
  \<^verbatim>\<open>calculate_Z_minimal_energy\<close> and \<^verbatim>\<open>calculate_fugacity\<close> of the EOS classes.
\<close>

theorem fugacity_is_calculate_fugacity_at_resolved_Z:
  "NichitaPR_fugacity calc_Z calc_f pr P T z h =
     (case calc_Z
             (PengRobinson78 (NichitaPR.mixture pr) (NichitaPR.bip pr)) P T z h of
        (Inl e, h1) \<Rightarrow> (Inl e, pr, h1)
      | (Inr Z, h1) \<Rightarrow>
          (case calc_f
                  (PengRobinson78 (NichitaPR.mixture pr) (NichitaPR.bip pr)) P T z Z h1 of
             (f, h2) \<Rightarrow> (f, pr, h2)))
   \<and>
   NichitaSRK_fugacity calc_Z calc_f srk P T z h =
     (case calc_Z
             (SoaveRedlichKwong (NichitaSRK.mixture srk) (NichitaSRK.bip srk)) P T z h of
        (Inl e, h1) \<Rightarrow> (Inl e, srk, h1)
      | (Inr Z, h1) \<Rightarrow>
          (case calc_f
                  (SoaveRedlichKwong (NichitaSRK.mixture srk) (NichitaSRK.bip srk)) P T z Z h1 of
             (f, h2) \<Rightarrow> (f, srk, h2)))"
  by (rule conjI [OF NichitaPR_fugacity_unfold NichitaSRK_fugacity_unfold])

section \<open>The wrappers leave their state alone\<close>

text \<open>
  C10. Neither wrapper changes its \<^verbatim>\<open>mixture\<close> or \<^verbatim>\<open>bip\<close> attribute:
  after \<^verbatim>\<open>calculate_Z\<close>, \<^verbatim>\<open>fugacity\<close> and \<^verbatim>\<open>number_of_components\<close> the wrapper
  is the one the call started with, whatever the EOS methods do, and every access of
  \<^verbatim>\<open>model\<close> builds an instance from these two attributes and changes nothing. When the
  two EOS methods only read the store (the specification's section 5), the store too is
  unchanged after \<^verbatim>\<open>calculate_Z\<close> and \<^verbatim>\<open>fugacity\<close>, so the instance that resolves
  \<open>Z\<close> inside \<^verbatim>\<open>fugacity\<close> and the one that computes the fugacities are equal and see the
  same mixture and interaction matrix.
\<close>

theorem wrappers_never_mutate_mixture_or_bip:
  "fst (snd (NichitaPR_calculate_Z calc_Z pr P T z h)) = pr
   \<and> fst (snd (NichitaPR_fugacity calc_Z calc_f pr P T z h)) = pr
   \<and> snd (NichitaPR_number_of_components pr h) = (pr, h)
   \<and> NichitaPR_model pr h =
       (PengRobinson78 (NichitaPR.mixture pr) (NichitaPR.bip pr), pr, h)
   \<and> fst (snd (NichitaSRK_calculate_Z calc_Z srk P T z h)) = srk
   \<and> fst (snd (NichitaSRK_fugacity calc_Z calc_f srk P T z h)) = srk
   \<and> snd (NichitaSRK_number_of_components srk h) = (srk, h)
   \<and> NichitaSRK_model srk h =
       (SoaveRedlichKwong (NichitaSRK.mixture srk) (NichitaSRK.bip srk), srk, h)
   \<and> ((\<forall>model P T z h. snd (calc_Z model P T z h) = h)
        \<and> (\<forall>model P T z Z h. snd (calc_f model P T z Z h) = h)
      \<longrightarrow>
        snd (NichitaPR_calculate_Z calc_Z pr P T z h) = (pr, h)
        \<and> snd (NichitaPR_fugacity calc_Z calc_f pr P T z h) = (pr, h)
        \<and> fst (NichitaPR_fugacity calc_Z calc_f pr P T z h) =
            (case fst (calc_Z (PengRobinson78 (NichitaPR.mixture pr) (NichitaPR.bip pr)) P T z h) of
               Inl e \<Rightarrow> Inl e
             | Inr Z \<Rightarrow>
                 fst (calc_f (PengRobinson78 (NichitaPR.mixture pr) (NichitaPR.bip pr)) P T z Z h))
        \<and> snd (NichitaSRK_calculate_Z calc_Z srk P T z h) = (srk, h)
        \<and> snd (NichitaSRK_fugacity calc_Z calc_f srk P T z h) = (srk, h)
        \<and> fst (NichitaSRK_fugacity calc_Z calc_f srk P T z h) =
            (case fst (calc_Z (SoaveRedlichKwong (NichitaSRK.mixture srk) (NichitaSRK.bip srk)) P T z h) of
               Inl e \<Rightarrow> Inl e
             | Inr Z \<Rightarrow>
                 fst (calc_f (SoaveRedlichKwong (NichitaSRK.mixture srk) (NichitaSRK.bip srk)) P T z Z h)))"
proof -
  have a1: "fst (snd (NichitaPR_calculate_Z calc_Z pr P T z h)) = pr"
    by (simp add: NichitaPR_calculate_Z_unfold split: prod.splits)
  have a2: "fst (snd (NichitaPR_fugacity calc_Z calc_f pr P T z h)) = pr"
    by (simp add: NichitaPR_fugacity_unfold split: prod.splits sum.splits)
  have a3: "snd (NichitaPR_number_of_components pr h) = (pr, h)"
    by (simp add: NichitaPR_number_of_components_def)
  have a4: "NichitaPR_model pr h =
       (PengRobinson78 (NichitaPR.mixture pr) (NichitaPR.bip pr), pr, h)"
    by (simp add: NichitaPR_model_def)
  have b1: "fst (snd (NichitaSRK_calculate_Z calc_Z srk P T z h)) = srk"
    by (simp add: NichitaSRK_calculate_Z_unfold split: prod.splits)
  have b2: "fst (snd (NichitaSRK_fugacity calc_Z calc_f srk P T z h)) = srk"
    by (simp add: NichitaSRK_fugacity_unfold split: prod.splits sum.splits)
  have b3: "snd (NichitaSRK_number_of_components srk h) = (srk, h)"
    by (simp add: NichitaSRK_number_of_components_def)
  have b4: "NichitaSRK_model srk h =
       (SoaveRedlichKwong (NichitaSRK.mixture srk) (NichitaSRK.bip srk), srk, h)"
    by (simp add: NichitaSRK_model_def)
  have frame: "snd (NichitaPR_calculate_Z calc_Z pr P T z h) = (pr, h)
        \<and> snd (NichitaPR_fugacity calc_Z calc_f pr P T z h) = (pr, h)
        \<and> fst (NichitaPR_fugacity calc_Z calc_f pr P T z h) =
            (case fst (calc_Z (PengRobinson78 (NichitaPR.mixture pr) (NichitaPR.bip pr)) P T z h) of
               Inl e \<Rightarrow> Inl e
             | Inr Z \<Rightarrow>
                 fst (calc_f (PengRobinson78 (NichitaPR.mixture pr) (NichitaPR.bip pr)) P T z Z h))
        \<and> snd (NichitaSRK_calculate_Z calc_Z srk P T z h) = (srk, h)
        \<and> snd (NichitaSRK_fugacity calc_Z calc_f srk P T z h) = (srk, h)
        \<and> fst (NichitaSRK_fugacity calc_Z calc_f srk P T z h) =
            (case fst (calc_Z (SoaveRedlichKwong (NichitaSRK.mixture srk) (NichitaSRK.bip srk)) P T z h) of
               Inl e \<Rightarrow> Inl e
             | Inr Z \<Rightarrow>
                 fst (calc_f (SoaveRedlichKwong (NichitaSRK.mixture srk) (NichitaSRK.bip srk)) P T z Z h))"
    if ro_Z: "\<forall>model P T z h. snd (calc_Z model P T z h) = h"
      and ro_f: "\<forall>model P T z Z h. snd (calc_f model P T z Z h) = h"
  proof -
    have Zh: "h1 = h'" if "calc_Z model P T z h' = (r, h1)" for model P T z h' r h1
      using ro_Z [rule_format, of model P T z h'] that by simp
    have fh: "h1 = h'" if "calc_f model P T z Z h' = (r, h1)" for model P T z Z h' r h1
      using ro_f [rule_format, of model P T z Z h'] that by simp
    show ?thesis
      by (auto simp: NichitaPR_calculate_Z_unfold NichitaPR_fugacity_unfold
            NichitaSRK_calculate_Z_unfold NichitaSRK_fugacity_unfold
            split: prod.splits sum.splits dest: Zh fh)
  qed
  from a1 a2 a3 a4 b1 b2 b3 b4 frame show ?thesis by blast
qed

theorem wrappers_never_mutate_mixture_or_bip_witness:
  "(\<forall>model P T z h. snd (example_Z_method model P T z h) = h)
   \<and> (\<forall>model P T z Z h. snd (example_fugacity_method model P T z Z h) = h)
   \<and> snd (NichitaPR_calculate_Z example_Z_method example_PR 4 2 [1 / 2, 1 / 2] example_heap) =
       (example_PR, example_heap)
   \<and> snd (NichitaPR_fugacity example_Z_method example_fugacity_method example_PR 4 2
            [1 / 2, 1 / 2] example_heap) = (example_PR, example_heap)
   \<and> snd (NichitaSRK_calculate_Z example_Z_method example_SRK 4 2 [1 / 2, 1 / 2] example_heap) =
       (example_SRK, example_heap)
   \<and> snd (NichitaSRK_fugacity example_Z_method example_fugacity_method example_SRK 4 2
            [1 / 2, 1 / 2] example_heap) = (example_SRK, example_heap)
   \<and> NichitaPR_number_of_components example_PR example_heap = (2, example_PR, example_heap)
   \<and> fst (NichitaPR_fugacity example_Z_method example_fugacity_method example_PR 4 2
            [1 / 2, 1 / 2] example_heap) = Inr [4, 4]"
proof -
  have h1: "\<forall>model P T z h. snd (example_Z_method model P T z h) = h"
    by (simp add: example_Z_method_def)
  have h2: "\<forall>model P T z Z h. snd (example_fugacity_method model P T z Z h) = h"
    by (simp add: example_fugacity_method_def)
  note all = wrappers_never_mutate_mixture_or_bip
    [where calc_Z = example_Z_method and calc_f = example_fugacity_method
       and pr = example_PR and srk = example_SRK and P = 4 and T = 2
       and z = "[1 / 2, 1 / 2]" and h = example_heap]
  have n: "NichitaPR_number_of_components example_PR example_heap = (2, example_PR, example_heap)"
    by (simp add: NichitaPR_number_of_components_def example_heap_def)
  have f: "fst (NichitaPR_fugacity example_Z_method example_fugacity_method example_PR 4 2
            [1 / 2, 1 / 2] example_heap) = Inr [4, 4]"
    by (simp add: NichitaPR_fugacity_unfold example_Z_method_def example_fugacity_method_def)
  from all h1 h2 n f show ?thesis by blast
qed

end
